theory Spec2Isabelle
  imports Main
begin

section \<open>Strings, the file system and standard output\<close>

text \<open>
  A Python \<^verbatim>\<open>str\<close> is a sequence of Unicode code points. The script prints and tests
  characters beyond ASCII (U+2705, U+274C, ...), so a string is a list of code points;
  \<open>asc\<close> embeds an ASCII literal.
\<close>

type_synonym pystr = "nat list"

definition asc :: "string \<Rightarrow> pystr" where
  "asc s = map of_char s"

text \<open>
  The file system as the script observes it: a path is absent (\<open>None\<close>), or it exists
  and \<^verbatim>\<open>open(path, 'r', encoding='utf-8').read()\<close> either returns the decoded text
  (\<open>Readable\<close>) or raises (\<open>Unreadable\<close>, with the text of the exception: a directory,
  missing permission, bytes that are not UTF-8). The script only reads, so the file
  system is an argument and never part of the state that is returned.
\<close>

datatype file_node = Readable pystr | Unreadable pystr

type_synonym filesystem = "pystr \<Rightarrow> file_node option"

text \<open>
  What a run does to the world: the strings handed to \<^verbatim>\<open>print\<close>, one entry for each
  call, and the file-system calls it makes, both in order.
\<close>

datatype fs_call = Exists pystr | Open pystr

record world =
  stdout :: "pystr list"
  calls :: "fs_call list"

definition print :: "pystr \<Rightarrow> world \<Rightarrow> world" where
  "print s w = w\<lparr>stdout := stdout w @ [s]\<rparr>"

definition os_path_exists :: "filesystem \<Rightarrow> pystr \<Rightarrow> world \<Rightarrow> bool \<times> world" where
  "os_path_exists fs p w = (fs p \<noteq> None, w\<lparr>calls := calls w @ [Exists p]\<rparr>)"

text \<open>
  The exceptions that can be raised inside the \<^verbatim>\<open>try\<close> block of
  \<^verbatim>\<open>check_file_content\<close>, all of them subclasses of \<^verbatim>\<open>Exception\<close>; \<open>exn_str\<close> is
  \<^verbatim>\<open>str(e)\<close>. (For a missing file Python shows the path as its \<^verbatim>\<open>repr\<close>, which is the
  path between single quotes when it holds no quote, backslash or unprintable character.)
\<close>

datatype exn = FileNotFoundError pystr | ReadError pystr | PatternError pystr

fun exn_str :: "exn \<Rightarrow> pystr" where
  "exn_str (FileNotFoundError p) =
     asc ''[Errno 2] No such file or directory: '' @ [0x27] @ p @ [0x27]"
| "exn_str (ReadError e) = e"
| "exn_str (PatternError e) = e"

definition open_read :: "filesystem \<Rightarrow> pystr \<Rightarrow> world \<Rightarrow> (exn + pystr) \<times> world" where
  "open_read fs p w =
     (case fs p of
        None \<Rightarrow> Inl (FileNotFoundError p)
      | Some (Unreadable e) \<Rightarrow> Inl (ReadError e)
      | Some (Readable content) \<Rightarrow> Inr content,
      w\<lparr>calls := calls w @ [Open p]\<rparr>)"

text \<open>Python's \<^verbatim>\<open>sub in s\<close> on strings: \<open>sub\<close> occurs as a contiguous piece of \<open>s\<close>.\<close>

fun starts_with :: "pystr \<Rightarrow> pystr \<Rightarrow> bool" where
  "starts_with [] s = True"
| "starts_with (a # sub) [] = False"
| "starts_with (a # sub) (c # s) = (if a = c then starts_with sub s else False)"

fun contains :: "pystr \<Rightarrow> pystr \<Rightarrow> bool" where
  "contains sub [] = (sub = [])"
| "contains sub (c # s) = (if starts_with sub (c # s) then True else contains sub s)"

section \<open>The regular-expression engine\<close>

text \<open>
  \<^verbatim>\<open>re.search(pattern, content, re.MULTILINE)\<close> belongs to Python's library, not to the
  script: it returns a match object, returns \<^verbatim>\<open>None\<close>, or raises (\<^verbatim>\<open>re.error\<close> for a
  pattern that does not compile). The functions of the script take the engine as the
  argument \<open>search\<close>, and every theorem about them holds for every engine.
\<close>

datatype re_result = Found | NotFound | ReRaises pystr

type_synonym engine = "pystr \<Rightarrow> pystr \<Rightarrow> re_result"

section \<open>An engine for the patterns of the script\<close>

text \<open>
  For closed examples, the engine on the part of Python's pattern syntax that the
  script's patterns are written in: ordinary characters, \<^verbatim>\<open>.\<close> (any character but a
  newline), a backslash before a character that is no ASCII letter or digit (that
  character itself), \<^verbatim>\<open>*\<close> after a character or \<^verbatim>\<open>.\<close>, and a \<^verbatim>\<open>{\<close> that opens no
  repetition count, which Python takes literally. A pattern that starts with \<^verbatim>\<open>*\<close>
  does not compile. Any other pattern (\<^verbatim>\<open>+ ? [ ( ) | ^ $\<close>, a backslash before a letter
  or digit, \<^verbatim>\<open>{\<close> before a digit or comma, a second \<^verbatim>\<open>*\<close>) is outside this part:
  \<open>tokens\<close> or \<open>items\<close> gives \<open>None\<close> and \<open>re_search\<close> answers \<open>ReRaises\<close> with a text
  of its own. No example uses such a pattern.
\<close>

datatype cls = Lit nat | AnyChar

datatype item = Once cls | Star cls

definition ascii_alnum :: "nat \<Rightarrow> bool" where
  "ascii_alnum c = ((0x30 \<le> c \<and> c \<le> 0x39) \<or> (0x41 \<le> c \<and> c \<le> 0x5A) \<or> (0x61 \<le> c \<and> c \<le> 0x7A))"

datatype token = TCls cls | TStar

fun tokens :: "pystr \<Rightarrow> token list option" where
  "tokens [] = Some []"
| "tokens (c # rest) =
     (if c = 0x5C then
        (case rest of
           [] \<Rightarrow> None
         | e # rest' \<Rightarrow>
             if ascii_alnum e then None else map_option (Cons (TCls (Lit e))) (tokens rest'))
      else if c = 0x2E then map_option (Cons (TCls AnyChar)) (tokens rest)
      else if c = 0x2A then map_option (Cons TStar) (tokens rest)
      else if c = 0x7B then
        (case rest of
           [] \<Rightarrow> Some [TCls (Lit c)]
         | d # _ \<Rightarrow>
             if (0x30 \<le> d \<and> d \<le> 0x39) \<or> d = 0x2C then None
             else map_option (Cons (TCls (Lit c))) (tokens rest))
      else if c \<in> set [0x2B, 0x3F, 0x5B, 0x28, 0x29, 0x7C, 0x5E, 0x24] then None
      else map_option (Cons (TCls (Lit c))) (tokens rest))"

text \<open>A \<^verbatim>\<open>*\<close> repeats the character class before it.\<close>

fun items :: "token list \<Rightarrow> item list option" where
  "items [] = Some []"
| "items (TCls a # TStar # ts) = map_option (Cons (Star a)) (items ts)"
| "items (TCls a # ts) = map_option (Cons (Once a)) (items ts)"
| "items (TStar # ts) = None"

fun accepts :: "cls \<Rightarrow> nat \<Rightarrow> bool" where
  "accepts (Lit a) c = (c = a)"
| "accepts AnyChar c = (c \<noteq> 0x0A)"

text \<open>\<open>match_here its t\<close>: some prefix of \<open>t\<close> matches the items.\<close>

fun match_here :: "item list \<Rightarrow> pystr \<Rightarrow> bool" where
  "match_here [] t = True"
| "match_here (Once a # its) [] = False"
| "match_here (Once a # its) (c # t) = (if accepts a c then match_here its t else False)"
| "match_here (Star a # its) [] = match_here its []"
| "match_here (Star a # its) (c # t) =
     (if accepts a c then
        (if match_here (Star a # its) t then True else match_here its (c # t))
      else match_here its (c # t))"

fun search_from :: "item list \<Rightarrow> pystr \<Rightarrow> bool" where
  "search_from its [] = match_here its []"
| "search_from its (c # t) = (if match_here its (c # t) then True else search_from its t)"

definition re_search :: engine where
  "re_search pattern content =
     (case pattern of
        [] \<Rightarrow> Found
      | c # _ \<Rightarrow>
          if c = 0x2A then
            ReRaises (asc ''nothing to repeat at position 0''
                      @ (if 0x0A \<in> set pattern then asc '' (line 1, column 1)'' else []))
          else
            (case Option.bind (tokens pattern) items of
               None \<Rightarrow> ReRaises (asc ''pattern outside the modelled part'')
             | Some its \<Rightarrow> if search_from its content then Found else NotFound))"

section \<open>The two checks\<close>

definition check_mark :: pystr where
  "check_mark = [0x2705]"

definition cross_mark :: pystr where
  "cross_mark = [0x274C]"

text \<open>
  \<^verbatim>\<open>
  def check_file_exists(file_path, description):
      if os.path.exists(file_path):
          print(f"(U+2705) {description}: {file_path}")
          return True
      else:
          print(f"(U+274C) {description}: {file_path} ((U+4E0D)(U+5B58)(U+5728))")
          return False
  \<close>
\<close>

definition check_file_exists :: "filesystem \<Rightarrow> pystr \<Rightarrow> pystr \<Rightarrow> world \<Rightarrow> bool \<times> world" where
  "check_file_exists fs file_path description w0 =
     (let (e, w) = os_path_exists fs file_path w0 in
      if e then
        (True, print (check_mark @ asc '' '' @ description @ asc '': '' @ file_path) w)
      else
        (False, print (cross_mark @ asc '' '' @ description @ asc '': '' @ file_path
                        @ asc '' ('' @ [0x4E0D, 0x5B58, 0x5728] @ asc '')'') w))"

text \<open>
  The loop of \<^verbatim>\<open>check_file_content\<close> over the requirements, appending one status string
  to \<^verbatim>\<open>results\<close> for each; an exception of the engine leaves the loop.
\<close>

fun scan :: "engine \<Rightarrow> (pystr \<times> pystr) list \<Rightarrow> pystr \<Rightarrow> pystr list \<Rightarrow> exn + pystr list" where
  "scan search [] content results = Inr results"
| "scan search ((pattern, desc) # rest) content results =
     (case search pattern content of
        ReRaises e \<Rightarrow> Inl (PatternError e)
      | Found \<Rightarrow> scan search rest content (results @ [asc ''  '' @ check_mark @ asc '' '' @ desc])
      | NotFound \<Rightarrow> scan search rest content (results @ [asc ''  '' @ cross_mark @ asc '' '' @ desc]))"

fun print_all :: "pystr list \<Rightarrow> world \<Rightarrow> world" where
  "print_all [] w = w"
| "print_all (result # results) w = print_all results (print result w)"

text \<open>
  The body of the \<^verbatim>\<open>try\<close> statement: \<open>Inl e\<close> when it raises \<open>e\<close>, \<open>Inr b\<close> when it
  returns \<open>b\<close>. Everything that can raise (opening, reading, searching) comes before the
  first \<^verbatim>\<open>print\<close>.
\<close>

definition try_block ::
  "engine \<Rightarrow> filesystem \<Rightarrow> pystr \<Rightarrow> (pystr \<times> pystr) list \<Rightarrow> pystr \<Rightarrow> world \<Rightarrow> (exn + bool) \<times> world" where
  "try_block search fs file_path patterns description w0 =
     (case open_read fs file_path w0 of
        (Inl e, w) \<Rightarrow> (Inl e, w)
      | (Inr content, w) \<Rightarrow>
          (case scan search patterns content [] of
             Inl e \<Rightarrow> (Inl e, w)
           | Inr results \<Rightarrow>
               (Inr (list_all (contains check_mark) results),
                print_all results
                  (print ([0x1F4C4] @ asc '' '' @ description @ asc '': '' @ file_path) w))))"

text \<open>
  \<^verbatim>\<open>
  def check_file_content(file_path, patterns, description):
      if not os.path.exists(file_path):
          print(f"(U+274C) {description}: {file_path} ((U+6587)(U+4EF6)(U+4E0D)(U+5B58)(U+5728))")
          return False
      try:
          ...
      except Exception as e:
          print(f"(U+274C) {description}: (U+8BFB)(U+53D6)(U+6587)(U+4EF6)(U+5931)(U+8D25) - {e}")
          return False
  \<close>
\<close>

definition check_file_content ::
  "engine \<Rightarrow> filesystem \<Rightarrow> pystr \<Rightarrow> (pystr \<times> pystr) list \<Rightarrow> pystr \<Rightarrow> world \<Rightarrow> bool \<times> world" where
  "check_file_content search fs file_path patterns description w0 =
     (let (e, w) = os_path_exists fs file_path w0 in
      if \<not> e then
        (False, print (cross_mark @ asc '' '' @ description @ asc '': '' @ file_path
                        @ asc '' ('' @ [0x6587, 0x4EF6, 0x4E0D, 0x5B58, 0x5728] @ asc '')'') w)
      else
        (case try_block search fs file_path patterns description w of
           (Inr b, w') \<Rightarrow> (b, w')
         | (Inl e, w') \<Rightarrow>
             (False, print (cross_mark @ asc '' '' @ description @ asc '': ''
                             @ [0x8BFB, 0x53D6, 0x6587, 0x4EF6, 0x5931, 0x8D25]
                             @ asc '' - '' @ exn_str e) w')))"

section \<open>The script\<close>

text \<open>The requirement lists and file lists of \<^verbatim>\<open>main\<close>, in the order of the source.\<close>

definition cargo_patterns :: "(pystr \<times> pystr) list" where
  "cargo_patterns =
     [(asc ''libp2p.*=.*{.*version.*=.*'' @ [0x22] @ asc ''0'' @ [0x5C] @ asc ''.53'' @ [0x22],
       asc ''libp2p '' @ [0x4F9D, 0x8D56, 0x5DF2, 0x6DFB, 0x52A0]),
      ([0x22] @ asc ''tcp'' @ [0x22],
       asc ''libp2p TCP '' @ [0x529F, 0x80FD, 0x5DF2, 0x914D, 0x7F6E]),
      (asc ''futures.*=.*'' @ [0x22] @ asc ''0'' @ [0x5C] @ asc ''.3'' @ [0x22],
       asc ''futures '' @ [0x4F9D, 0x8D56, 0x5DF2, 0x66F4, 0x65B0])]"

definition config_patterns :: "(pystr \<times> pystr) list" where
  "config_patterns =
     [(asc ''pub enable_mdns: bool'',
       asc ''enable_mdns '' @ [0x5B57, 0x6BB5, 0x5DF2, 0x6DFB, 0x52A0]),
      (asc ''pub mdns_discovery_interval: u64'',
       asc ''mdns_discovery_interval '' @ [0x5B57, 0x6BB5, 0x5DF2, 0x6DFB, 0x52A0]),
      (asc ''pub enable_quic: bool'',
       asc ''enable_quic '' @ [0x5B57, 0x6BB5, 0x5DF2, 0x6DFB, 0x52A0]),
      (asc ''pub idle_connection_timeout: u64'',
       asc ''idle_connection_timeout '' @ [0x5B57, 0x6BB5, 0x5DF2, 0x6DFB, 0x52A0])]"

definition error_patterns :: "(pystr \<times> pystr) list" where
  "error_patterns =
     [(asc ''MdnsDiscoveryFailed'' @ [0x5C] @ asc ''(String'' @ [0x5C] @ asc '')'',
       asc ''MdnsDiscoveryFailed '' @ [0x9519, 0x8BEF, 0x5DF2, 0x6DFB, 0x52A0]),
      (asc ''Libp2p'' @ [0x5C] @ asc ''(String'' @ [0x5C] @ asc '')'',
       asc ''Libp2p '' @ [0x9519, 0x8BEF, 0x5DF2, 0x6DFB, 0x52A0]),
      (asc ''PeerNotFound'' @ [0x5C] @ asc ''(String'' @ [0x5C] @ asc '')'',
       asc ''PeerNotFound '' @ [0x9519, 0x8BEF, 0x5DF2, 0x6DFB, 0x52A0]),
      (asc ''Transport'' @ [0x5C] @ asc ''(String'' @ [0x5C] @ asc '')'',
       asc ''Transport '' @ [0x9519, 0x8BEF, 0x5DF2, 0x6DFB, 0x52A0])]"

definition connection_patterns :: "(pystr \<times> pystr) list" where
  "connection_patterns =
     [(asc ''use libp2p::{PeerId, Multiaddr}'',
       asc ''libp2p '' @ [0x7C7B, 0x578B, 0x5DF2, 0x5BFC, 0x5165]),
      (asc ''pub peer_id: Option<PeerId>'',
       asc ''peer_id '' @ [0x5B57, 0x6BB5, 0x5DF2, 0x6DFB, 0x52A0]),
      (asc ''pub address: Option<Multiaddr>'',
       asc ''address '' @ [0x5B57, 0x6BB5, 0x5DF2, 0x6DFB, 0x52A0]),
      (asc ''pub message_sender: Option<mpsc::UnboundedSender<Message>>'',
       asc ''message_sender '' @ [0x5B57, 0x6BB5, 0x5DF2, 0x6DFB, 0x52A0])]"

definition manager_patterns :: "(pystr \<times> pystr) list" where
  "manager_patterns =
     [(asc ''use libp2p::'',
       asc ''libp2p '' @ [0x5DF2, 0x5BFC, 0x5165]),
      (asc ''CrossCopyBehaviour'',
       asc ''CrossCopyBehaviour '' @ [0x5DF2, 0x5B9A, 0x4E49]),
      (asc ''mdns::Event::Discovered'',
       asc ''mDNS '' @ [0x53D1, 0x73B0, 0x4E8B, 0x4EF6, 0x5904, 0x7406]),
      (asc ''SwarmEvent::'',
       asc ''Swarm '' @ [0x4E8B, 0x4EF6, 0x5904, 0x7406])]"

definition doc_files :: "(pystr \<times> (pystr \<times> pystr) list) list" where
  "doc_files =
     [(asc ''doc/technical-specification.md'',
       [(asc ''libp2p '' @ [0x534F, 0x8BAE, 0x6808],
         [0x6280, 0x672F, 0x89C4, 0x683C, 0x5DF2, 0x66F4, 0x65B0, 0x4E3A] @ asc '' libp2p''),
        (asc ''mDNS '' @ [0x53D1, 0x73B0],
         asc ''mDNS '' @ [0x53D1, 0x73B0, 0x673A, 0x5236, 0x5DF2, 0x6587, 0x6863, 0x5316])]),
      (asc ''doc/api-reference.md'',
       [(asc ''enable_mdns: bool'',
         asc ''API '' @ [0x6587, 0x6863, 0x5DF2, 0x66F4, 0x65B0]),
        (asc ''mdns_discovery_interval: u64'',
         asc ''mDNS '' @ [0x914D, 0x7F6E, 0x5DF2, 0x6587, 0x6863, 0x5316])]),
      (asc ''doc/architecture.md'',
       [(asc ''libp2p.*'' @ [0x70B9, 0x5BF9, 0x70B9, 0x7F51, 0x7EDC, 0x901A, 0x4FE1],
         [0x67B6, 0x6784, 0x6587, 0x6863, 0x5DF2, 0x66F4, 0x65B0]),
        (asc ''mDNS '' @ [0x81EA, 0x52A8, 0x8282, 0x70B9, 0x53D1, 0x73B0],
         asc ''mDNS '' @ [0x67B6, 0x6784, 0x5DF2, 0x8BF4, 0x660E])])]"

definition test_files :: "pystr list" where
  "test_files =
     [asc ''tests/network_libp2p_test.rs'',
      asc ''examples/libp2p_network_demo.rs'',
      asc ''NETWORK_MIGRATION.md'']"

text \<open>
  The two \<^verbatim>\<open>for\<close> loops of \<^verbatim>\<open>main\<close>, with the descriptions they pass
  (U+6587 U+6863 and \<^verbatim>\<open>": {file_path}"\<close> for a document; a fixed text for a test file).
  \<^verbatim>\<open>all_checks_passed &= check(...)\<close> evaluates the check whatever the flag holds, then
  stores the conjunction.
\<close>

definition doc_description :: "pystr \<Rightarrow> pystr" where
  "doc_description file_path = [0x6587, 0x6863] @ asc '': '' @ file_path"

definition test_description :: pystr where
  "test_description = [0x6D4B, 0x8BD5] @ asc ''/'' @ [0x793A, 0x4F8B, 0x6587, 0x4EF6]"

fun doc_loop ::
  "engine \<Rightarrow> filesystem \<Rightarrow> (pystr \<times> (pystr \<times> pystr) list) list \<Rightarrow> bool \<Rightarrow> world \<Rightarrow> bool \<times> world" where
  "doc_loop search fs [] all_checks_passed w = (all_checks_passed, w)"
| "doc_loop search fs ((file_path, patterns) # rest) all_checks_passed w =
     (let (r, w') = check_file_content search fs file_path patterns
                      (doc_description file_path) w
      in doc_loop search fs rest (all_checks_passed \<and> r) w')"

fun test_loop :: "filesystem \<Rightarrow> pystr list \<Rightarrow> bool \<Rightarrow> world \<Rightarrow> bool \<times> world" where
  "test_loop fs [] all_checks_passed w = (all_checks_passed, w)"
| "test_loop fs (file_path # rest) all_checks_passed w =
     (let (r, w') = check_file_exists fs file_path test_description w
      in test_loop fs rest (all_checks_passed \<and> r) w')"

text \<open>
  How \<^verbatim>\<open>main\<close> ends: it returns, or \<^verbatim>\<open>sys.exit(1)\<close> raises \<^verbatim>\<open>SystemExit\<close>, which
  nothing catches. The exit status of the process is 0 in the first case and the argument
  of \<^verbatim>\<open>sys.exit\<close> in the second.
\<close>

datatype outcome = Returned | SystemExit int

fun exit_status :: "outcome \<Rightarrow> int" where
  "exit_status Returned = 0"
| "exit_status (SystemExit n) = n"

definition rule_line :: pystr where
  "rule_line = replicate 40 0x3D"

definition success_banner :: "pystr list" where
  "success_banner =
     [[0x1F389] @ asc '' '' @ [0x6240, 0x6709, 0x68C0, 0x67E5, 0x901A, 0x8FC7, 0xFF01, 0x7F51, 0x7EDC, 0x5C42, 0x8FC1, 0x79FB, 0x5DF2, 0x5B8C, 0x6210],
      [0xA, 0x8FC1, 0x79FB, 0x603B, 0x7ED3] @ asc '':'',
      [0x2705] @ asc '' WebSocket '' @ [0x2192] @ asc '' libp2p '' @ [0x8FC1, 0x79FB, 0x5B8C, 0x6210],
      [0x2705] @ asc '' mDNS '' @ [0x81EA, 0x52A8, 0x53D1, 0x73B0, 0x5DF2, 0x5B9E, 0x73B0],
      [0x2705] @ asc '' '' @ [0x914D, 0x7F6E, 0x7ED3, 0x6784, 0x5DF2, 0x66F4, 0x65B0],
      [0x2705] @ asc '' '' @ [0x6587, 0x6863, 0x5DF2, 0x540C, 0x6B65, 0x66F4, 0x65B0],
      [0x2705] @ asc '' '' @ [0x6D4B, 0x8BD5, 0x548C, 0x793A, 0x4F8B, 0x5DF2, 0x521B, 0x5EFA],
      [0xA, 0x4E0B, 0x4E00, 0x6B65] @ asc '':'',
      asc ''1. '' @ [0x8FD0, 0x884C] @ asc '' '' @ [0x27] @ asc ''cargo check'' @ [0x27] @ asc '' '' @ [0x68C0, 0x67E5, 0x7F16, 0x8BD1],
      asc ''2. '' @ [0x8FD0, 0x884C] @ asc '' '' @ [0x27] @ asc ''cargo test'' @ [0x27] @ asc '' '' @ [0x6267, 0x884C, 0x6D4B, 0x8BD5],
      asc ''3. '' @ [0x8FD0, 0x884C] @ asc '' '' @ [0x27] @ asc ''cargo run --example libp2p_network_demo'' @ [0x27] @ asc '' '' @ [0x67E5, 0x770B, 0x6F14, 0x793A]]"

definition main :: "engine \<Rightarrow> filesystem \<Rightarrow> world \<Rightarrow> outcome \<times> world" where
  "main search fs w0 =
     (let w = print (asc ''CrossCopy '' @ [0x7F51, 0x7EDC, 0x5C42, 0x8FC1, 0x79FB, 0x9A8C, 0x8BC1]) w0;
          w = print rule_line w;
          (e, w) = os_path_exists fs (asc ''Cargo.toml'') w
      in
      if \<not> e then
        (SystemExit 1, print ([0x274C] @ asc '' '' @ [0x8BF7, 0x5728, 0x9879, 0x76EE, 0x6839, 0x76EE, 0x5F55, 0x8FD0, 0x884C, 0x6B64, 0x811A, 0x672C]) w)
      else
        (let all_checks_passed = True;
             w = print ([0xA] @ asc ''1. '' @ [0x68C0, 0x67E5, 0x4F9D, 0x8D56, 0x66F4, 0x65B0]) w;
             (r, w) = check_file_content search fs (asc ''Cargo.toml'') cargo_patterns
                        (asc ''Cargo.toml '' @ [0x4F9D, 0x8D56, 0x914D, 0x7F6E]) w;
             all_checks_passed = (all_checks_passed \<and> r);
             w = print ([0xA] @ asc ''2. '' @ [0x68C0, 0x67E5, 0x914D, 0x7F6E, 0x7ED3, 0x6784, 0x66F4, 0x65B0]) w;
             (r, w) = check_file_content search fs (asc ''src/config/mod.rs'') config_patterns
                        (asc ''NetworkConfig '' @ [0x7ED3, 0x6784]) w;
             all_checks_passed = (all_checks_passed \<and> r);
             w = print ([0xA] @ asc ''3. '' @ [0x68C0, 0x67E5, 0x7F51, 0x7EDC, 0x9519, 0x8BEF, 0x7C7B, 0x578B, 0x66F4, 0x65B0]) w;
             (r, w) = check_file_content search fs (asc ''src/network/mod.rs'') error_patterns
                        ([0x7F51, 0x7EDC, 0x9519, 0x8BEF, 0x7C7B, 0x578B]) w;
             all_checks_passed = (all_checks_passed \<and> r);
             w = print ([0xA] @ asc ''4. '' @ [0x68C0, 0x67E5, 0x8FDE, 0x63A5, 0x7ED3, 0x6784, 0x66F4, 0x65B0]) w;
             (r, w) = check_file_content search fs (asc ''src/network/connection.rs'')
                        connection_patterns (asc ''Connection '' @ [0x7ED3, 0x6784]) w;
             all_checks_passed = (all_checks_passed \<and> r);
             w = print ([0xA] @ asc ''5. '' @ [0x68C0, 0x67E5, 0x7F51, 0x7EDC, 0x7BA1, 0x7406, 0x5668, 0x66F4, 0x65B0]) w;
             (r, w) = check_file_content search fs (asc ''src/network/manager.rs'')
                        manager_patterns (asc ''NetworkManager '' @ [0x5B9E, 0x73B0]) w;
             all_checks_passed = (all_checks_passed \<and> r);
             w = print ([0xA] @ asc ''6. '' @ [0x68C0, 0x67E5, 0x6587, 0x6863, 0x66F4, 0x65B0]) w;
             (all_checks_passed, w) = doc_loop search fs doc_files all_checks_passed w;
             w = print ([0xA] @ asc ''7. '' @ [0x68C0, 0x67E5, 0x6D4B, 0x8BD5, 0x548C, 0x793A, 0x4F8B, 0x6587, 0x4EF6]) w;
             (all_checks_passed, w) = test_loop fs test_files all_checks_passed w;
             w = print ([0x0A] @ rule_line) w
         in
         if all_checks_passed then (Returned, print_all success_banner w)
         else (SystemExit 1, print ([0x26A0, 0xFE0F] @ asc ''  '' @ [0x90E8, 0x5206, 0x68C0, 0x67E5, 0x672A, 0x901A, 0x8FC7, 0xFF0C, 0x8BF7, 0x68C0, 0x67E5, 0x4E0A, 0x8FF0, 0x95EE, 0x9898]) w)))"

section \<open>Notions for stating the properties\<close>

text \<open>
  The world before anything is printed or called; \<open>emit out cs w\<close> is \<open>w\<close> after the
  lines \<open>out\<close> and the calls \<open>cs\<close> more; \<open>lines_of\<close> and \<open>calls_of\<close> are what a
  computation prints and calls when started on the empty world.
\<close>

definition empty_world :: world where
  "empty_world = \<lparr>stdout = [], calls = []\<rparr>"

definition emit :: "pystr list \<Rightarrow> fs_call list \<Rightarrow> world \<Rightarrow> world" where
  "emit out cs w = w\<lparr>stdout := stdout w @ out, calls := calls w @ cs\<rparr>"

definition lines_of :: "(world \<Rightarrow> 'a \<times> world) \<Rightarrow> pystr list" where
  "lines_of f = stdout (snd (f empty_world))"

definition calls_of :: "(world \<Rightarrow> 'a \<times> world) \<Rightarrow> fs_call list" where
  "calls_of f = calls (snd (f empty_world))"

definition result_of :: "(world \<Rightarrow> 'a \<times> world) \<Rightarrow> 'a" where
  "result_of f = fst (f empty_world)"



definition header_line :: "pystr \<Rightarrow> pystr \<Rightarrow> pystr" where
  "header_line description file_path = [0x1F4C4] @ asc '' '' @ description @ asc '': '' @ file_path"

definition failure_line :: "pystr \<Rightarrow> pystr \<Rightarrow> pystr" where
  "failure_line description e =
     cross_mark @ asc '' '' @ description @ asc '': '' @ [0x8BFB, 0x53D6, 0x6587, 0x4EF6, 0x5931, 0x8D25] @ asc '' - '' @ e"

definition absent_line :: "pystr \<Rightarrow> pystr \<Rightarrow> pystr" where
  "absent_line description file_path =
     cross_mark @ asc '' '' @ description @ asc '': '' @ file_path @ asc '' ('' @ [0x6587, 0x4EF6, 0x4E0D, 0x5B58, 0x5728] @ asc '')''"

text \<open>
  The eleven checks of \<^verbatim>\<open>main\<close> in the order it runs them: eight content checks (path
  and requirements), then the three existence checks of \<open>test_files\<close>. The result of
  a check does not depend on its description; \<open>check_results\<close> runs each check on its
  own with the empty description.
\<close>

definition content_checks :: "(pystr \<times> (pystr \<times> pystr) list) list" where
  "content_checks =
     [(asc ''Cargo.toml'', cargo_patterns),
      (asc ''src/config/mod.rs'', config_patterns),
      (asc ''src/network/mod.rs'', error_patterns),
      (asc ''src/network/connection.rs'', connection_patterns),
      (asc ''src/network/manager.rs'', manager_patterns)] @ doc_files"

definition checked_paths :: "pystr list" where
  "checked_paths = map fst content_checks @ test_files"

definition check_results :: "engine \<Rightarrow> filesystem \<Rightarrow> bool list" where
  "check_results search fs =
     map (\<lambda>(file_path, patterns).
            result_of (check_file_content search fs file_path patterns [])) content_checks
     @ map (\<lambda>file_path. result_of (check_file_exists fs file_path [])) test_files"

text \<open>The outcomes that decide a run: the test for the marker file, then the checks.\<close>

definition outcomes :: "engine \<Rightarrow> filesystem \<Rightarrow> bool list" where
  "outcomes search fs = (fs (asc ''Cargo.toml'') \<noteq> None) # check_results search fs"

text \<open>The \<^verbatim>\<open>os.path.exists\<close> calls among the calls of a run.\<close>

fun exists_calls :: "fs_call list \<Rightarrow> pystr list" where
  "exists_calls [] = []"
| "exists_calls (Exists p # cs) = p # exists_calls cs"
| "exists_calls (Open p # cs) = exists_calls cs"

section \<open>Example directories\<close>

text \<open>A directory in which every check of the script succeeds.\<close>

definition cargo_toml_text :: pystr where
  "cargo_toml_text =
     asc ''libp2p = { version = '' @ [0x22] @ asc ''0.53'' @ [0x22] @ asc '', features = ['' @ [0x22] @ asc ''tcp'' @ [0x22] @ asc ''] }'' @ [0xA] @ asc ''futures = '' @ [0x22] @ asc ''0.3'' @ [0x22]"

definition fs_complete :: filesystem where
  "fs_complete = map_of
     [(asc ''Cargo.toml'', Readable cargo_toml_text),
      (asc ''src/config/mod.rs'', Readable
         (asc ''pub enable_mdns: bool,'' @ [0xA] @ asc ''pub mdns_discovery_interval: u64,'' @ [0xA] @ asc ''pub enable_quic: bool,'' @ [0xA] @ asc ''pub idle_connection_timeout: u64,'')),
      (asc ''src/network/mod.rs'', Readable
         (asc ''MdnsDiscoveryFailed(String),'' @ [0xA] @ asc ''Libp2p(String),'' @ [0xA] @ asc ''PeerNotFound(String),'' @ [0xA] @ asc ''Transport(String),'')),
      (asc ''src/network/connection.rs'', Readable
         (asc ''use libp2p::{PeerId, Multiaddr};'' @ [0xA] @ asc ''pub peer_id: Option<PeerId>,'' @ [0xA] @ asc ''pub address: Option<Multiaddr>,'' @ [0xA] @ asc ''pub message_sender: Option<mpsc::UnboundedSender<Message>>,'')),
      (asc ''src/network/manager.rs'', Readable
         (asc ''use libp2p::swarm;'' @ [0xA] @ asc ''struct CrossCopyBehaviour;'' @ [0xA] @ asc ''mdns::Event::Discovered(list)'' @ [0xA] @ asc ''SwarmEvent::Behaviour'')),
      (asc ''doc/technical-specification.md'', Readable
         (asc ''libp2p '' @ [0x534F, 0x8BAE, 0x6808, 0xA] @ asc ''mDNS '' @ [0x53D1, 0x73B0])),
      (asc ''doc/api-reference.md'', Readable
         (asc ''enable_mdns: bool'' @ [0xA] @ asc ''mdns_discovery_interval: u64'')),
      (asc ''doc/architecture.md'', Readable
         (asc ''libp2p '' @ [0x70B9, 0x5BF9, 0x70B9, 0x7F51, 0x7EDC, 0x901A, 0x4FE1, 0xA] @ asc ''mDNS '' @ [0x81EA, 0x52A8, 0x8282, 0x70B9, 0x53D1, 0x73B0])),
      (asc ''tests/network_libp2p_test.rs'', Readable []),
      (asc ''examples/libp2p_network_demo.rs'', Readable []),
      (asc ''NETWORK_MIGRATION.md'', Readable [])]"

text \<open>The same directory with a dependency manifest that does not name the TCP feature.\<close>

definition cargo_toml_no_tcp :: pystr where
  "cargo_toml_no_tcp =
     asc ''libp2p = { version = '' @ [0x22] @ asc ''0.53'' @ [0x22] @ asc '' }'' @ [0xA] @ asc ''futures = '' @ [0x22] @ asc ''0.3'' @ [0x22]"

definition fs_no_tcp :: filesystem where
  "fs_no_tcp = fs_complete(asc ''Cargo.toml'' \<mapsto> Readable cargo_toml_no_tcp)"

text \<open>The same directory without the example and the migration note.\<close>

definition fs_nine :: filesystem where
  "fs_nine = fs_complete(asc ''examples/libp2p_network_demo.rs'' := None,
                         asc ''NETWORK_MIGRATION.md'' := None)"

text \<open>The same directory with a configuration module that cannot be read.\<close>

definition denied_message :: pystr where
  "denied_message =
     asc ''[Errno 13] Permission denied: '' @ [0x27] @ asc ''src/config/mod.rs'' @ [0x27]"

definition fs_denied :: filesystem where
  "fs_denied = fs_complete(asc ''src/config/mod.rs'' \<mapsto> Unreadable denied_message)"

text \<open>A directory that holds nothing, and one that holds a single file with the text \<^verbatim>\<open>alpha\<close>.\<close>

definition fs_nothing :: filesystem where
  "fs_nothing = (\<lambda>p. None)"

definition fs_one :: filesystem where
  "fs_one = [asc ''notes.txt'' \<mapsto> Readable (asc ''alpha'')]"

section \<open>Every function only appends to the world\<close>

lemma emit_sel: "stdout (emit out cs w) = stdout w @ out" "calls (emit out cs w) = calls w @ cs"
  by (simp_all add: emit_def)

lemma emit_emit: "emit out2 cs2 (emit out1 cs1 w) = emit (out1 @ out2) (cs1 @ cs2) w"
  by (simp add: emit_def)

lemma emit_empty_world: "emit out cs empty_world = \<lparr>stdout = out, calls = cs\<rparr>"
  by (simp add: emit_def empty_world_def)

lemma print_emit: "print s w = emit [s] [] w"
  by (simp add: print_def emit_def)

lemma print_all_emit: "print_all results w = emit results [] w"
  by (induction results arbitrary: w) (simp_all add: print_emit emit_emit, simp add: emit_def)

lemma os_path_exists_emit: "os_path_exists fs p w = (fs p \<noteq> None, emit [] [Exists p] w)"
  by (simp add: os_path_exists_def emit_def)

lemma check_file_exists_emit:
  "check_file_exists fs file_path description w =
     (fs file_path \<noteq> None,
      emit [if fs file_path \<noteq> None
            then check_mark @ asc '' '' @ description @ asc '': '' @ file_path
            else cross_mark @ asc '' '' @ description @ asc '': '' @ file_path
                 @ asc '' ('' @ [0x4E0D, 0x5B58, 0x5728] @ asc '')'']
           [Exists file_path] w)"
  by (simp add: check_file_exists_def os_path_exists_emit print_emit emit_emit)



text \<open>The four ways through \<^verbatim>\<open>check_file_content\<close>.\<close>

lemma cfc_eq:
  "check_file_content search fs file_path patterns description w =
     (case fs file_path of
        None \<Rightarrow> (False, emit [absent_line description file_path] [Exists file_path] w)
      | Some (Unreadable e) \<Rightarrow>
          (False, emit [failure_line description e] [Exists file_path, Open file_path] w)
      | Some (Readable content) \<Rightarrow>
          (case scan search patterns content [] of
             Inl x \<Rightarrow> (False, emit [failure_line description (exn_str x)]
                                 [Exists file_path, Open file_path] w)
           | Inr results \<Rightarrow>
               (list_all (contains check_mark) results,
                emit (header_line description file_path # results)
                     [Exists file_path, Open file_path] w)))"
  by (simp add: check_file_content_def try_block_def open_read_def os_path_exists_def
        print_def print_all_emit emit_def absent_line_def failure_line_def header_line_def
      split: option.split file_node.split sum.split)

lemma cfc_frame:
  "check_file_content search fs file_path patterns description w =
     (result_of (check_file_content search fs file_path patterns []),
      emit (lines_of (check_file_content search fs file_path patterns description))
           (calls_of (check_file_content search fs file_path patterns description)) w)"
  by (simp add: cfc_eq result_of_def lines_of_def calls_of_def emit_empty_world
      split: option.split file_node.split sum.split)

lemma cfe_frame:
  "check_file_exists fs file_path description w =
     (result_of (check_file_exists fs file_path []),
      emit (lines_of (check_file_exists fs file_path description))
           (calls_of (check_file_exists fs file_path description)) w)"
  by (simp add: check_file_exists_emit result_of_def lines_of_def calls_of_def emit_empty_world)

lemma doc_loop_frame:
  "doc_loop search fs files acc w =
     (acc \<and> list_all id (map (\<lambda>(file_path, patterns).
         result_of (check_file_content search fs file_path patterns [])) files),
      emit (concat (map (\<lambda>(file_path, patterns). lines_of
              (check_file_content search fs file_path patterns (doc_description file_path))) files))
           (concat (map (\<lambda>(file_path, patterns). calls_of
              (check_file_content search fs file_path patterns (doc_description file_path))) files))
           w)"
proof (induction files arbitrary: acc w)
  case Nil
  show ?case by (simp add: emit_def)
next
  case (Cons f files)
  show ?case
    by (cases f) (simp add: Cons.IH emit_emit cfc_frame [where w = w])
qed

lemma test_loop_frame:
  "test_loop fs files acc w =
     (acc \<and> list_all id (map (\<lambda>file_path. result_of (check_file_exists fs file_path [])) files),
      emit (concat (map (\<lambda>file_path. lines_of
              (check_file_exists fs file_path test_description)) files))
           (concat (map (\<lambda>file_path. calls_of
              (check_file_exists fs file_path test_description)) files)) w)"
proof (induction files arbitrary: acc w)
  case Nil
  show ?case by (simp add: emit_def)
next
  case (Cons f files)
  show ?case by (simp add: Cons.IH emit_emit cfe_frame [where w = w])
qed

lemmas main_unfold =
  main_def Let_def os_path_exists_emit print_emit print_all_emit emit_emit
  cfc_frame [where w = "emit _ _ _"] doc_loop_frame test_loop_frame
  check_results_def content_checks_def

lemma main_outcome:
  "fst (main search fs w) =
     (if fs (asc ''Cargo.toml'') \<noteq> None \<and> list_all id (check_results search fs)
      then Returned else SystemExit 1)"
  by (simp add: main_unfold)


section \<open>The content check\<close>





lemmas search_defs = re_search_def asc_def ascii_alnum_def

lemma alpha_file: "fs_one (asc ''notes.txt'') = Some (Readable (asc ''alpha''))"
  by (simp add: fs_one_def)





section \<open>The existence check\<close>

text \<open>
  C3. For every path, \<^verbatim>\<open>check_file_exists\<close> returns true and prints a success line
  when the path exists, and returns false and prints a failure line when it does not.
  Both cases are ordinary returns after one \<^verbatim>\<open>os.path.exists\<close> call and one
  \<^verbatim>\<open>print\<close>: nothing is raised for a missing file.
\<close>

theorem check_file_exists_reports:
  "(fs file_path \<noteq> None \<longrightarrow>
      check_file_exists fs file_path description w =
        (True, emit [check_mark @ asc '' '' @ description @ asc '': '' @ file_path]
                    [Exists file_path] w))
   \<and> (fs file_path = None \<longrightarrow>
      check_file_exists fs file_path description w =
        (False, emit [cross_mark @ asc '' '' @ description @ asc '': '' @ file_path
                      @ asc '' ('' @ [0x4E0D, 0x5B58, 0x5728] @ asc '')'']
                     [Exists file_path] w))"
  by (simp add: check_file_exists_emit)

theorem check_file_exists_reports_witness:
  "fs_one (asc ''notes.txt'') \<noteq> None
   \<and> fst (check_file_exists fs_one (asc ''notes.txt'') (asc ''notes'') empty_world)
   \<and> fs_one (asc ''gone.txt'') = None
   \<and> \<not> fst (check_file_exists fs_one (asc ''gone.txt'') (asc ''notes'') empty_world)"
proof -
  have "fs_one (asc ''notes.txt'') \<noteq> None" "fs_one (asc ''gone.txt'') = None"
    by (simp_all add: fs_one_def asc_def)
  with check_file_exists_reports [where fs = fs_one and file_path = "asc ''notes.txt''"
      and description = "asc ''notes''" and w = empty_world]
    check_file_exists_reports [where fs = fs_one and file_path = "asc ''gone.txt''"
      and description = "asc ''notes''" and w = empty_world]
  show ?thesis by simp
qed

section \<open>Absent files and empty requirement lists\<close>

text \<open>
  C4. Whatever the requirements, the empty list included, \<^verbatim>\<open>check_file_content\<close>
  returns false (after one failure line) when the file is absent; with the empty list
  it returns true exactly when the file exists and can be read.
\<close>

theorem check_file_content_absent_or_empty:
  "(fs file_path = None \<longrightarrow>
      check_file_content search fs file_path patterns description w =
        (False, emit [absent_line description file_path] [Exists file_path] w))
   \<and> fst (check_file_content search fs file_path [] description w) =
       (\<exists>content. fs file_path = Some (Readable content))"
  by (simp add: cfc_eq split: option.split file_node.split)

theorem check_file_content_absent_or_empty_witness:
  "fs_one (asc ''gone.txt'') = None
   \<and> \<not> fst (check_file_content re_search fs_one (asc ''gone.txt'') [] (asc ''notes'') empty_world)
   \<and> fs_one (asc ''notes.txt'') = Some (Readable (asc ''alpha''))
   \<and> fst (check_file_content re_search fs_one (asc ''notes.txt'') [] (asc ''notes'') empty_world)"
proof -
  have "fs_one (asc ''gone.txt'') = None" by (simp add: fs_one_def asc_def)
  with check_file_content_absent_or_empty [where fs = fs_one and file_path = "asc ''gone.txt''"
      and patterns = "[]" and description = "asc ''notes''" and w = empty_world and search = re_search]
    check_file_content_absent_or_empty [where fs = fs_one and file_path = "asc ''notes.txt''"
      and patterns = "[]" and description = "asc ''notes''" and w = empty_world and search = re_search]
  show ?thesis by (simp add: alpha_file)
qed

section \<open>The result is read off the printed lines\<close>



section \<open>The run\<close>

text \<open>
  C6. When the marker file is absent, the run prints its two title lines and a single
  error line, makes no file-system call but the test for the marker (none of the eleven
  checks is run), and \<^verbatim>\<open>sys.exit(1)\<close> ends it with exit status 1.
\<close>

theorem precondition_absent:
  assumes "fs (asc ''Cargo.toml'') = None"
  shows "main search fs w =
           (SystemExit 1,
            emit [asc ''CrossCopy '' @ [0x7F51, 0x7EDC, 0x5C42, 0x8FC1, 0x79FB, 0x9A8C, 0x8BC1], rule_line,
                  [0x274C] @ asc '' '' @ [0x8BF7, 0x5728, 0x9879, 0x76EE, 0x6839, 0x76EE, 0x5F55, 0x8FD0, 0x884C, 0x6B64, 0x811A, 0x672C]]
                 [Exists (asc ''Cargo.toml'')] w)
       \<and> exit_status (fst (main search fs w)) = 1"
  using assms by (simp add: main_def os_path_exists_emit print_emit emit_emit)

theorem precondition_absent_witness:
  "fs_nothing (asc ''Cargo.toml'') = None
   \<and> exit_status (fst (main re_search fs_nothing empty_world)) = 1
   \<and> length (stdout (snd (main re_search fs_nothing empty_world))) = 3
   \<and> calls (snd (main re_search fs_nothing empty_world)) = [Exists (asc ''Cargo.toml'')]"
proof -
  have a: "fs_nothing (asc ''Cargo.toml'') = None" by (simp add: fs_nothing_def)
  from precondition_absent [where fs = fs_nothing and search = re_search and w = empty_world, OF a] a
  show ?thesis by (simp add: emit_empty_world)
qed

section \<open>The checks a run enters\<close>

lemma exists_calls_append: "exists_calls (xs @ ys) = exists_calls xs @ exists_calls ys"
  by (induction xs rule: exists_calls.induct) simp_all

lemma exists_calls_cfc:
  "exists_calls (calls_of (check_file_content search fs file_path patterns description)) = [file_path]"
  by (simp add: calls_of_def cfc_eq emit_empty_world split: option.split file_node.split sum.split)

lemma exists_calls_cfe:
  "exists_calls (calls_of (check_file_exists fs file_path description)) = [file_path]"
  by (simp add: calls_of_def check_file_exists_emit emit_empty_world)

lemma exists_calls_docs:
  "exists_calls (concat (map (\<lambda>(file_path, patterns).
      calls_of (check_file_content search fs file_path patterns (d file_path))) files)) = map fst files"
  by (induction files) (auto simp add: exists_calls_append exists_calls_cfc)

lemma exists_calls_tests:
  "exists_calls (concat (map (\<lambda>file_path.
      calls_of (check_file_exists fs file_path d)) files)) = files"
  by (induction files) (auto simp add: exists_calls_append exists_calls_cfe)

lemma exists_calls_main:
  "fs (asc ''Cargo.toml'') \<noteq> None \<Longrightarrow>
   exists_calls (calls (snd (main search fs w))) =
     exists_calls (calls w) @ asc ''Cargo.toml'' # checked_paths"
  by (simp add: main_unfold emit_sel exists_calls_append exists_calls_cfc
        exists_calls_docs exists_calls_tests checked_paths_def)

section \<open>The example directories, evaluated\<close>

lemmas eval_defs =
  check_results_def content_checks_def result_of_def check_file_content_def
  check_file_exists_def try_block_def open_read_def os_path_exists_def print_def empty_world_def
  cargo_patterns_def config_patterns_def error_patterns_def connection_patterns_def
  manager_patterns_def doc_files_def test_files_def search_defs check_mark_def cross_mark_def
  cargo_toml_text_def cargo_toml_no_tcp_def fs_complete_def

lemma complete_results:
  "check_results re_search fs_complete =
     [True, True, True, True, True, True, True, True, True, True, True]"
  by (simp add: eval_defs)

lemma no_tcp_results:
  "check_results re_search fs_no_tcp =
     [False, True, True, True, True, True, True, True, True, True, True]"
  by (simp add: eval_defs fs_no_tcp_def)


lemma denied_results:
  "check_results re_search fs_denied =
     [True, False, True, True, True, True, True, True, True, True, True]"
  by (simp add: eval_defs fs_denied_def)

lemma markers:
  "fs_complete (asc ''Cargo.toml'') \<noteq> None" "fs_no_tcp (asc ''Cargo.toml'') \<noteq> None"
  "fs_nine (asc ''Cargo.toml'') \<noteq> None" "fs_denied (asc ''Cargo.toml'') \<noteq> None"
  "fs_nothing (asc ''Cargo.toml'') = None"
  by (simp_all add: fs_complete_def fs_no_tcp_def fs_nine_def fs_denied_def fs_nothing_def asc_def)

section \<open>Aggregation\<close>

lemma list_all_update:
  "i < length xs \<Longrightarrow> list_all id (xs[i := b]) = (b \<and> list_all id (xs[i := True]))"
  by (induction xs arbitrary: i) (auto split: nat.splits)

lemma exit_zero_iff:
  "(exit_status (fst (main search fs w)) = 0) = list_all id (outcomes search fs)"
  "(exit_status (fst (main search fs w)) = 1) = (\<not> list_all id (outcomes search fs))"
  by (simp_all add: main_outcome outcomes_def)

text \<open>
  C1. The exit status is 0 exactly when the marker file is present and each of the
  eleven checks returned true, and 1 exactly when the marker is missing or some check
  returned false. Take a second run whose outcomes (marker test and checks) differ from
  those of the first in one place only: when every other outcome is true, exactly one
  of the two runs exits with 0; when some other outcome is false, both exit with 1.
\<close>

theorem exit_code_aggregates:
  "(exit_status (fst (main search fs w)) = 0) =
     (fs (asc ''Cargo.toml'') \<noteq> None \<and> list_all id (check_results search fs))
   \<and> (exit_status (fst (main search fs w)) = 1) =
     (fs (asc ''Cargo.toml'') = None \<or> list_ex Not (check_results search fs))
   \<and> (\<forall>search' fs' w' i.
        i < length (outcomes search fs)
        \<and> outcomes search' fs' = (outcomes search fs)[i := \<not> outcomes search fs ! i] \<longrightarrow>
        (if list_all id ((outcomes search fs)[i := True])
         then (exit_status (fst (main search' fs' w')) = 0) =
              (exit_status (fst (main search fs w)) \<noteq> 0)
         else exit_status (fst (main search' fs' w')) = 1
              \<and> exit_status (fst (main search fs w)) = 1))"
  (is "?zero \<and> ?one \<and> (\<forall>search' fs' w' i. ?differ search' fs' i \<longrightarrow> ?flip search' fs' w' i)")
proof (intro conjI allI impI)
  show ?zero by (simp add: main_outcome)
  show ?one by (auto simp add: main_outcome list_all_iff list_ex_iff)
next
  fix search' fs' w' i
  let ?xs = "outcomes search fs"
  assume "?differ search' fs' i"
  with list_all_update [of i ?xs "?xs ! i"] list_all_update [of i ?xs "\<not> ?xs ! i"]
  have "list_all id ?xs = (?xs ! i \<and> list_all id (?xs[i := True]))"
    "list_all id (outcomes search' fs') = (\<not> ?xs ! i \<and> list_all id (?xs[i := True]))"
    by simp_all
  then show "?flip search' fs' w' i" by (simp add: exit_zero_iff)
qed

theorem exit_code_aggregates_witness:
  "list_all id (outcomes re_search fs_complete)
   \<and> exit_status (fst (main re_search fs_complete empty_world)) = 0
   \<and> outcomes re_search fs_no_tcp =
       (outcomes re_search fs_complete)[1 := \<not> outcomes re_search fs_complete ! 1]
   \<and> exit_status (fst (main re_search fs_no_tcp empty_world)) \<noteq> 0"
proof -
  have r: "list_all id (outcomes re_search fs_complete)"
    and o: "outcomes re_search fs_no_tcp =
       (outcomes re_search fs_complete)[1 := \<not> outcomes re_search fs_complete ! 1]"
    and t: "list_all id ((outcomes re_search fs_complete)[1 := True])"
    and l: "(1::nat) < length (outcomes re_search fs_complete)"
    by (simp_all add: outcomes_def markers complete_results no_tcp_results)
  note agg = exit_code_aggregates [where search = re_search and fs = fs_complete and w = empty_world]
  from agg r have z: "exit_status (fst (main re_search fs_complete empty_world)) = 0"
    by (simp add: outcomes_def)
  from agg l o t have "(exit_status (fst (main re_search fs_no_tcp empty_world)) = 0) =
      (exit_status (fst (main re_search fs_complete empty_world)) \<noteq> 0)"
    by (metis (full_types))
  with r z o show ?thesis by simp
qed

section \<open>Failures inside a check\<close>

text \<open>
  C5. When reading the file fails, whatever the failure, the \<^verbatim>\<open>try\<close> block raises and
  the handler of \<^verbatim>\<open>check_file_content\<close> catches it: the check prints one line with the
  text of the exception and returns false; the same holds for every exception the
  \<^verbatim>\<open>try\<close> block raises. The run goes on: with the marker present all eleven checks are
  entered, \<^verbatim>\<open>main\<close> either returns or leaves by \<^verbatim>\<open>sys.exit(1)\<close>, and the exit status is
  non-zero exactly when the marker is missing or some check returned false.
\<close>

theorem read_failure_is_caught:
  "(fs file_path = Some (Unreadable e) \<longrightarrow>
      fst (try_block search fs file_path patterns description w') = Inl (ReadError e)
      \<and> check_file_content search fs file_path patterns description w =
          (False, emit [failure_line description e] [Exists file_path, Open file_path] w))
   \<and> (fs file_path \<noteq> None
       \<and> fst (try_block search fs file_path patterns description
                (snd (os_path_exists fs file_path w))) = Inl x \<longrightarrow>
      check_file_content search fs file_path patterns description w =
          (False, emit [failure_line description (exn_str x)]
                       [Exists file_path, Open file_path] w))
   \<and> (fs (asc ''Cargo.toml'') \<noteq> None \<longrightarrow>
        exists_calls (calls (snd (main search fs w))) =
          exists_calls (calls w) @ asc ''Cargo.toml'' # checked_paths)
   \<and> (fst (main search fs w) = Returned \<or> fst (main search fs w) = SystemExit 1)
   \<and> (exit_status (fst (main search fs w)) \<noteq> 0) =
       (fs (asc ''Cargo.toml'') = None \<or> \<not> list_all id (check_results search fs))"
  by (auto simp add: try_block_def open_read_def cfc_eq exists_calls_main main_outcome
      split: option.splits file_node.splits sum.splits)

theorem read_failure_is_caught_witness:
  "fs_denied (asc ''src/config/mod.rs'') = Some (Unreadable denied_message)
   \<and> check_file_content re_search fs_denied (asc ''src/config/mod.rs'') config_patterns
        (asc ''config'') empty_world =
       (False,
        \<lparr>stdout = [failure_line (asc ''config'') denied_message],
         calls = [Exists (asc ''src/config/mod.rs''), Open (asc ''src/config/mod.rs'')]\<rparr>)
   \<and> exists_calls (calls (snd (main re_search fs_denied empty_world))) =
       asc ''Cargo.toml'' # checked_paths
   \<and> exit_status (fst (main re_search fs_denied empty_world)) \<noteq> 0"
proof -
  have u: "fs_denied (asc ''src/config/mod.rs'') = Some (Unreadable denied_message)"
    by (simp add: fs_denied_def)
  have r: "\<not> list_all id (check_results re_search fs_denied)" by (simp add: denied_results)
  from read_failure_is_caught [where fs = fs_denied and search = re_search
      and file_path = "asc ''src/config/mod.rs''" and patterns = config_patterns
      and description = "asc ''config''" and w = empty_world and e = denied_message]
    u r markers(4)
  show ?thesis by (simp add: emit_empty_world) (simp add: empty_world_def)
qed

section \<open>The success banner\<close>




section \<open>A dependency manifest with one pattern missing\<close>





section \<open>Determinism\<close>







end
